theory Spec2Isabelle
  imports Main "HOL-Library.Word" "HOL-Library.Sublist"
begin

section \<open>Python values\<close>

text \<open>
  A Python \<open>str\<close> is a sequence of Unicode code points; it is carried as the list of
  their numbers. \<open>ustr\<close> reads an ASCII literal as such a text.
\<close>

type_synonym pystr = "nat list"

definition ustr :: "string \<Rightarrow> pystr" where
  "ustr s = map of_char s"

text \<open>
  The code points that \<open>str.strip()\<close> removes (those for which \<open>str.isspace\<close> holds):
  U+0009..U+000D, U+001C..U+0020, U+0085, U+00A0, U+1680, U+2000..U+200A, U+2028,
  U+2029, U+202F, U+205F and U+3000.
\<close>

definition isspace :: "nat \<Rightarrow> bool" where
  "isspace c \<longleftrightarrow>
     (9 \<le> c \<and> c \<le> 13) \<or> (28 \<le> c \<and> c \<le> 32) \<or> c = 133 \<or> c = 160 \<or> c = 5760 \<or>
     (8192 \<le> c \<and> c \<le> 8202) \<or> c = 8232 \<or> c = 8233 \<or> c = 8239 \<or> c = 8287 \<or> c = 12288"

definition strip :: "pystr \<Rightarrow> pystr" where
  "strip s = rev (dropWhile isspace (rev (dropWhile isspace s)))"

text \<open>
  The value \<open>response.json()\<close> returns: \<open>None\<close>, a bool, an int, a float, a str, a list
  or a dict. A float is carried as the text \<open>repr\<close> gives for it, which determines it.
  A dict is carried as its items; a lookup takes the first item with the key.
\<close>

datatype pyval =
    PNone
  | PBool bool
  | PInt int
  | PFloat pystr
  | PStr pystr
  | PList "pyval list"
  | PDict "(pystr \<times> pyval) list"

text \<open>
  The exceptions that \<open>get_weather\<close> does not catch; \<open>OtherError\<close> stands for one of
  any other class, by the name of the class.
\<close>

datatype exc =
  AttributeError | TypeError | TclError | UnicodeEncodeError | ValueError | OtherError pystr

text \<open>
  What a call into the \<open>requests\<close> library does: it returns, it raises a
  \<open>requests.RequestException\<close> (carried as its text \<open>str(exc)\<close>), which the program
  catches, or it raises another exception, which the program does not catch.
\<close>

datatype 'a attempt = Returns 'a | RequestException pystr | Raises exc

text \<open>Sequencing: an exception raised by the first step ends the computation.\<close>

definition and_then :: "exc + 'a \<Rightarrow> ('a \<Rightarrow> exc + 'b) \<Rightarrow> exc + 'b" where
  "and_then m f = (case m of Inl x \<Rightarrow> Inl x | Inr v \<Rightarrow> f v)"

text \<open>Truth value of an object, as \<open>not x\<close>, \<open>x or y\<close> and \<open>filter(None, ...)\<close> test it.\<close>

fun py_bool :: "pyval \<Rightarrow> bool" where
  "py_bool PNone = False"
| "py_bool (PBool b) = b"
| "py_bool (PInt i) = (i \<noteq> 0)"
| "py_bool (PFloat r) = (r \<noteq> ustr ''0.0'' \<and> r \<noteq> ustr ''-0.0'')"
| "py_bool (PStr s) = (s \<noteq> [])"
| "py_bool (PList xs) = (xs \<noteq> [])"
| "py_bool (PDict kvs) = (kvs \<noteq> [])"

definition py_or :: "pyval \<Rightarrow> pyval \<Rightarrow> pyval" where
  "py_or x y = (if py_bool x then x else y)"

definition dict_get :: "(pystr \<times> pyval) list \<Rightarrow> pystr \<Rightarrow> pyval \<Rightarrow> pyval" where
  "dict_get kvs k d = (case map_of kvs k of None \<Rightarrow> d | Some v \<Rightarrow> v)"

text \<open>\<open>x.get(k, d)\<close>: only a dict has the method.\<close>

fun py_get :: "pyval \<Rightarrow> pystr \<Rightarrow> pyval \<Rightarrow> exc + pyval" where
  "py_get (PDict kvs) k d = Inr (dict_get kvs k d)"
| "py_get _ k d = Inl AttributeError"

text \<open>\<open>x.startswith(p)\<close>: of the values above only a str has the method.\<close>

fun py_startswith :: "pyval \<Rightarrow> pystr \<Rightarrow> exc + bool" where
  "py_startswith (PStr s) p = Inr (take (length p) s = p)"
| "py_startswith _ p = Inl AttributeError"

text \<open>\<open>sep.join(items)\<close>: every item has to be a str.\<close>

fun str_join :: "pystr \<Rightarrow> pystr list \<Rightarrow> pystr" where
  "str_join sep [] = []"
| "str_join sep [x] = x"
| "str_join sep (x # y # ys) = x @ sep @ str_join sep (y # ys)"

fun as_str :: "pyval \<Rightarrow> pystr option" where
  "as_str (PStr s) = Some s"
| "as_str _ = None"

fun is_str :: "pyval \<Rightarrow> bool" where
  "is_str (PStr s) = True"
| "is_str _ = False"

definition py_join :: "pystr \<Rightarrow> pyval list \<Rightarrow> exc + pystr" where
  "py_join sep items =
     (if list_all is_str items then Inr (str_join sep (List.map_filter as_str items))
      else Inl TypeError)"

text \<open>Decimal text of an int, as \<open>str\<close> gives it.\<close>

fun digits :: "nat \<Rightarrow> pystr" where
  "digits n = (if n < 10 then [48 + n] else digits (n div 10) @ [48 + n mod 10])"

declare digits.simps [simp del]

definition str_int :: "int \<Rightarrow> pystr" where
  "str_int i = (if i < 0 then 45 # digits (nat (- i)) else digits (nat i))"

text \<open>
  \<open>format(v, "")\<close>, which an f-string applies to a replacement field. The text of a list
  or a dict is built from \<open>repr\<close> of its members; it is taken from the parameter
  \<open>container_repr\<close>.
\<close>

fun py_format :: "(pyval \<Rightarrow> pystr) \<Rightarrow> pyval \<Rightarrow> pystr" where
  "py_format container_repr PNone = ustr ''None''"
| "py_format container_repr (PBool b) = (if b then ustr ''True'' else ustr ''False'')"
| "py_format container_repr (PInt i) = str_int i"
| "py_format container_repr (PFloat r) = r"
| "py_format container_repr (PStr s) = s"
| "py_format container_repr v = container_repr v"

section \<open>The libraries the program calls\<close>

text \<open>
  A request as \<open>requests.get(url, params=..., timeout=...)\<close> receives it, and what the
  program uses of a response: the status code, the reason phrase and the URL (they
  make the text of the \<open>HTTPError\<close>), what \<open>json()\<close> does (it returns the parsed body,
  raises \<open>requests.JSONDecodeError\<close>, a \<open>RequestException\<close>, when the body is not JSON,
  or raises another exception, such as \<open>ValueError\<close> for an integer of too many digits),
  and \<open>content\<close>, the bytes of the body.
\<close>

record request =
  url :: pystr
  params :: "(pystr \<times> pystr) list"
  timeout :: nat

record response =
  status_code :: nat
  reason :: pystr
  response_url :: pystr
  json :: "pyval attempt"
  content :: "8 word list"

text \<open>
  \<open>response.raise_for_status()\<close> of the \<open>requests\<close> library: it raises \<open>HTTPError\<close>, a
  \<open>RequestException\<close>, for a status code from 400 to 599 and returns for every other
  one. \<open>Some\<close> is the text of the exception raised.
\<close>

definition http_error_msg :: "response \<Rightarrow> pystr" where
  "http_error_msg r =
     str_int (int (status_code r))
     @ (if status_code r < 500 then ustr '' Client Error: '' else ustr '' Server Error: '')
     @ reason r @ ustr '' for url: '' @ response_url r"

definition raise_for_status :: "response \<Rightarrow> pystr option" where
  "raise_for_status r =
     (if 400 \<le> status_code r \<and> status_code r < 600 then Some (http_error_msg r) else None)"

text \<open>\<open>base64.b64encode(bs).decode("ascii")\<close>.\<close>

definition b64_alphabet :: pystr where
  "b64_alphabet = ustr ''ABCDEFGHIJKLMNOPQRSTUVWXYZabcdefghijklmnopqrstuvwxyz0123456789+/''"

definition b64_char :: "nat \<Rightarrow> nat" where
  "b64_char i = b64_alphabet ! (i mod 64)"

fun b64encode :: "8 word list \<Rightarrow> pystr" where
  "b64encode [] = []"
| "b64encode [a] =
     (let n = unat a * 65536
      in [b64_char (n div 262144), b64_char (n div 4096), 61, 61])"
| "b64encode [a, b] =
     (let n = unat a * 65536 + unat b * 256
      in [b64_char (n div 262144), b64_char (n div 4096), b64_char (n div 64), 61])"
| "b64encode (a # b # c # rest) =
     (let n = unat a * 65536 + unat b * 256 + unat c
      in [b64_char (n div 262144), b64_char (n div 4096), b64_char (n div 64), b64_char n]
         @ b64encode rest)"

text \<open>\<open>tk.PhotoImage(data=...)\<close>: the image made from base64 text.\<close>

datatype photo = PhotoImage pystr

text \<open>
  What the program is run against: the configured key (\<open>""\<close> when \<open>api_config\<close> is
  absent), the network as \<open>requests.get\<close> sees it, whether Tk recognises image data
  (\<open>PhotoImage\<close> raises \<open>TclError\<close> when it does not), whether Tk can encode a text that
  is not ASCII (passing a str to Tk raises \<open>UnicodeEncodeError\<close> when it cannot, as for a
  text with the lone surrogate U+D83D on Linux), and \<open>repr\<close> of lists and dicts.
\<close>

record env =
  API_KEY :: pystr
  requests_get :: "request \<Rightarrow> response attempt"
  tk_recognizes :: "pystr \<Rightarrow> bool"
  tk_encodes :: "pystr \<Rightarrow> bool"
  container_repr :: "pyval \<Rightarrow> pystr"

section \<open>WeatherApp\<close>

text \<open>
  The widgets \<open>get_weather\<close> reads and writes: the text of the location entry, the
  result variable, the image and background of the icon label and the stored image
  reference. The requests sent and the dialogs shown are recorded in order.
\<close>

record app =
  location_entry :: pystr
  result_var :: pystr
  icon_label_image :: "photo option"
  icon_label_bg :: pystr
  icon_image :: "photo option"
  requests_sent :: "request list"
  dialogs :: "(pystr \<times> pystr) list"

text \<open>
  \<open>self.result_var.set(text)\<close>: an ASCII text is always passed on; another text is passed
  on when Tk can encode it, and \<open>UnicodeEncodeError\<close> is raised otherwise, the variable
  keeping its value.
\<close>

definition is_ascii :: "pystr \<Rightarrow> bool" where
  "is_ascii t = list_all (\<lambda>c. c < 128) t"

definition tk_takes :: "env \<Rightarrow> pystr \<Rightarrow> bool" where
  "tk_takes e t = (is_ascii t \<or> tk_encodes e t)"

definition result_var_set :: "env \<Rightarrow> pystr \<Rightarrow> app \<Rightarrow> exc option \<times> app" where
  "result_var_set e t s =
     (if tk_takes e t then (None, s\<lparr>result_var := t\<rparr>) else (Some UnicodeEncodeError, s))"

definition API_URL :: pystr where
  "API_URL = ustr ''https://api.weatherapi.com/v1/current.json''"

definition colors_surface :: pystr where
  "colors_surface = ustr ''#0d0f14''"

definition primary_request :: "env \<Rightarrow> pystr \<Rightarrow> request" where
  "primary_request e location =
     \<lparr>url = API_URL,
      params = [(ustr ''key'', API_KEY e), (ustr ''q'', location), (ustr ''aqi'', ustr ''no'')],
      timeout = 10\<rparr>"

definition icon_request :: "pystr \<Rightarrow> request" where
  "icon_request icon_url = \<lparr>url = icon_url, params = [], timeout = 10\<rparr>"

text \<open>
  The body of the first \<open>try\<close> (lines 266-272): the request, \<open>raise_for_status()\<close>,
  \<open>json()\<close>.
\<close>

definition try_primary :: "env \<Rightarrow> request \<Rightarrow> pyval attempt" where
  "try_primary e req =
     (case requests_get e req of
        RequestException msg \<Rightarrow> RequestException msg
      | Raises x \<Rightarrow> Raises x
      | Returns resp \<Rightarrow>
          (case raise_for_status resp of
             Some msg \<Rightarrow> RequestException msg
           | None \<Rightarrow> json resp))"

text \<open>
  The values read from the body, with their defaults (lines 282-294). Each \<open>.get\<close> can
  raise, in the order of the source.
\<close>

record fields =
  name :: pyval
  region :: pyval
  country :: pyval
  temp_c :: pyval
  feelslike_c :: pyval
  humidity :: pyval
  wind_kph :: pyval
  cond_text :: pyval
  icon_path :: pyval

definition extract_fields :: "pystr \<Rightarrow> pyval \<Rightarrow> exc + fields" where
  "extract_fields location data =
     and_then (py_get data (ustr ''location'') (PDict [])) (\<lambda>location_data.
     and_then (py_get data (ustr ''current'') (PDict [])) (\<lambda>current.
     and_then (py_get current (ustr ''condition'') (PDict [])) (\<lambda>c.
     let condition = py_or c (PDict []) in
     and_then (py_get location_data (ustr ''name'') (PStr location)) (\<lambda>v1.
     and_then (py_get location_data (ustr ''region'') (PStr [])) (\<lambda>v2.
     and_then (py_get location_data (ustr ''country'') (PStr [])) (\<lambda>v3.
     and_then (py_get current (ustr ''temp_c'') (PStr (ustr ''?''))) (\<lambda>v4.
     and_then (py_get current (ustr ''feelslike_c'') (PStr (ustr ''?''))) (\<lambda>v5.
     and_then (py_get current (ustr ''humidity'') (PStr (ustr ''?''))) (\<lambda>v6.
     and_then (py_get current (ustr ''wind_kph'') (PStr (ustr ''?''))) (\<lambda>v7.
     and_then (py_get condition (ustr ''text'') (PStr (ustr ''Unknown''))) (\<lambda>v8.
     and_then (py_get condition (ustr ''icon'') (PStr [])) (\<lambda>v9.
     Inr \<lparr>name = v1, region = v2, country = v3, temp_c = v4, feelslike_c = v5,
          humidity = v6, wind_kph = v7, cond_text = v8,
          icon_path = py_or v9 (PStr [])\<rparr>))))))))))))"

text \<open>
  Line 295: \<open>f"https:{icon_path}" if icon_path.startswith("//") else icon_path\<close>. When
  \<open>startswith\<close> returns, \<open>icon_path\<close> is a str and so is the result.
\<close>

definition icon_url_of :: "pyval \<Rightarrow> exc + pystr" where
  "icon_url_of p =
     and_then (py_startswith p (ustr ''//'')) (\<lambda>b.
     case p of
       PStr path \<Rightarrow> Inr (if b then ustr ''https:'' @ path else path)
     | _ \<Rightarrow> Inl AttributeError)"

text \<open>
  The second \<open>try\<close> (lines 297-305): fetch the icon, make the image, show it. A
  \<open>RequestException\<close> is caught and clears the icon; \<open>TclError\<close> is not a
  \<open>RequestException\<close> and leaves the \<open>try\<close>.
\<close>

definition fetch_icon :: "env \<Rightarrow> pystr \<Rightarrow> app \<Rightarrow> exc option \<times> app" where
  "fetch_icon e icon_url s =
     (let s1 = s\<lparr>requests_sent := requests_sent s @ [icon_request icon_url]\<rparr>;
          cleared = s1\<lparr>icon_image := None, icon_label_image := None\<rparr>
      in case requests_get e (icon_request icon_url) of
           RequestException msg \<Rightarrow> (None, cleared)
         | Raises x \<Rightarrow> (Some x, s1)
         | Returns icon_resp \<Rightarrow>
             (case raise_for_status icon_resp of
                Some msg \<Rightarrow> (None, cleared)
              | None \<Rightarrow>
                  (let icon_b64 = b64encode (content icon_resp)
                   in if tk_recognizes e icon_b64
                      then (None, s1\<lparr>icon_image := Some (PhotoImage icon_b64),
                                      icon_label_image := Some (PhotoImage icon_b64),
                                      icon_label_bg := colors_surface\<rparr>)
                      else (Some TclError, s1))))"

text \<open>The lines of the result after the location line (lines 310-313).\<close>

definition weather_lines :: "(pyval \<Rightarrow> pystr) \<Rightarrow> fields \<Rightarrow> pystr list" where
  "weather_lines crepr f =
     [ustr ''Condition: '' @ py_format crepr (cond_text f),
      ustr ''Temperature: '' @ py_format crepr (temp_c f) @ [176] @ ustr ''C (feels like ''
        @ py_format crepr (feelslike_c f) @ [176] @ ustr ''C)'',
      ustr ''Humidity: '' @ py_format crepr (humidity f) @ ustr ''%'',
      ustr ''Wind: '' @ py_format crepr (wind_kph f) @ ustr '' kph'']"

text \<open>
  The location line, the list \<open>details\<close> and the text joined from it (lines 307-315).
  Code point 10 is the newline, 176 the degree sign.
\<close>

definition details :: "(pyval \<Rightarrow> pystr) \<Rightarrow> pystr \<Rightarrow> fields \<Rightarrow> exc + pystr" where
  "details crepr location f =
     and_then (py_join (ustr '', '') (filter py_bool [name f, region f, country f]))
       (\<lambda>location_line.
          Inr (str_join [10]
                ((if location_line \<noteq> [] then location_line else location)
                 # weather_lines crepr f)))"

text \<open>
  What \<open>get_weather\<close> does once the body is parsed (lines 279-315): clear the icon, read
  the fields, fetch the icon if there is one, set the result text (which Tk can refuse). The first component
  of the result is the exception that leaves \<open>get_weather\<close>, if any; the second is the
  state it leaves behind.
\<close>

definition show_weather :: "env \<Rightarrow> pystr \<Rightarrow> pyval \<Rightarrow> app \<Rightarrow> exc option \<times> app" where
  "show_weather e location data s =
     (let s2 = s\<lparr>icon_image := None, icon_label_image := None\<rparr>
      in case extract_fields location data of
           Inl x \<Rightarrow> (Some x, s2)
         | Inr f \<Rightarrow>
             (case icon_url_of (icon_path f) of
                Inl x \<Rightarrow> (Some x, s2)
              | Inr icon_url \<Rightarrow>
                  (case (if icon_url \<noteq> [] then fetch_icon e icon_url s2
                         else (None, s2)) of
                     (Some x, s3) \<Rightarrow> (Some x, s3)
                   | (None, s3) \<Rightarrow>
                       (case details (container_repr e) location f of
                          Inl x \<Rightarrow> (Some x, s3)
                        | Inr text \<Rightarrow> result_var_set e text s3))))"

text \<open>\<open>WeatherApp.get_weather\<close> (lines 256-315).\<close>

definition get_weather :: "env \<Rightarrow> app \<Rightarrow> exc option \<times> app" where
  "get_weather e s =
     (let location = strip (location_entry s)
      in if location = []
         then (None, s\<lparr>dialogs := dialogs s @
                 [(ustr ''Enter a location'', ustr ''Please type a city or ZIP/postal code.'')]\<rparr>)
         else if API_KEY e = []
         then result_var_set e
                (ustr ''Missing API key. Add your key to api_config.py (kept out of git).'') s
         else
           (let s1 = s\<lparr>requests_sent := requests_sent s @ [primary_request e location]\<rparr>
            in case try_primary e (primary_request e location) of
                 RequestException msg \<Rightarrow>
                   (case result_var_set e (ustr ''Error fetching weather data: '' @ msg) s1 of
                      (Some x, s2) \<Rightarrow> (Some x, s2)
                    | (None, s2) \<Rightarrow> (None, s2\<lparr>icon_label_image := None, icon_image := None\<rparr>))
               | Raises x \<Rightarrow> (Some x, s1)
               | Returns data \<Rightarrow> show_weather e location data s1))"

section \<open>Conditions on a response and sample runs\<close>

text \<open>
  The window as \<open>__init__\<close> leaves it, with a text typed into the location entry.
\<close>

definition idle_app :: "pystr \<Rightarrow> app" where
  "idle_app typed =
     \<lparr>location_entry = typed, result_var = ustr ''Enter a location to begin.'',
      icon_label_image = None, icon_label_bg = colors_surface, icon_image = None,
      requests_sent = [], dialogs = []\<rparr>"

text \<open>
  The icon request for a URL ends without an image error: the request or its status
  check raises a \<open>RequestException\<close>, or Tk recognises the data.
\<close>

definition icon_quiet :: "env \<Rightarrow> pystr \<Rightarrow> bool" where
  "icon_quiet e icon_url =
     (case requests_get e (icon_request icon_url) of
        RequestException msg \<Rightarrow> True
      | Raises x \<Rightarrow> False
      | Returns resp \<Rightarrow>
          (case raise_for_status resp of
             Some msg \<Rightarrow> True
           | None \<Rightarrow> tk_recognizes e (b64encode (content resp))))"

text \<open>
  The same for the \<open>icon\<close> member of the condition: it is a text, empty or with a quiet
  icon request, or another value that counts as false.
\<close>

fun icon_step_completes :: "env \<Rightarrow> pyval \<Rightarrow> bool" where
  "icon_step_completes e (PStr path) =
     (path = [] \<or>
      icon_quiet e (if take 2 path = ustr ''//'' then ustr ''https:'' @ path else path))"
| "icon_step_completes e v = (\<not> py_bool v)"

text \<open>
  The location members that survive \<open>filter(None, ...)\<close> are texts, and the line
  \<open>", ".join\<close> makes of them.
\<close>

definition location_textual :: "fields \<Rightarrow> bool" where
  "location_textual f = list_all is_str (filter py_bool [name f, region f, country f])"

definition location_line :: "fields \<Rightarrow> pystr" where
  "location_line f =
     str_join (ustr '', '') (List.map_filter as_str (filter py_bool [name f, region f, country f]))"

text \<open>
  The text \<open>get_weather\<close> sets from the fields when the location members are texts, and
  the condition that Tk takes the text built from a body.
\<close>

definition result_text :: "(pyval \<Rightarrow> pystr) \<Rightarrow> pystr \<Rightarrow> fields \<Rightarrow> pystr" where
  "result_text crepr location f =
     str_join [10] ((if location_line f \<noteq> [] then location_line f else location)
                    # weather_lines crepr f)"

definition text_accepted :: "env \<Rightarrow> pystr \<Rightarrow> pyval \<Rightarrow> bool" where
  "text_accepted e location data =
     (case extract_fields location data of
        Inl x \<Rightarrow> True
      | Inr f \<Rightarrow> tk_takes e (result_text (container_repr e) location f))"

text \<open>
  Sample networks: one answer for the weather endpoint, one for any other URL. A sample
  response has status 200 unless the status is set.
\<close>

definition http_ok :: "pyval attempt \<Rightarrow> 8 word list \<Rightarrow> response" where
  "http_ok body bytes =
     \<lparr>status_code = 200, reason = ustr ''OK'', response_url = ustr ''https://example.org/'',
      json = body, content = bytes\<rparr>"

definition serve :: "response attempt \<Rightarrow> response attempt \<Rightarrow> request \<Rightarrow> response attempt" where
  "serve primary other req = (if url req = API_URL then primary else other)"

text \<open>A Tk that recognises GIF data only (base64 text starting with \<open>R0lG\<close>).\<close>

definition tk_gif :: "pystr \<Rightarrow> bool" where
  "tk_gif data = (take 4 data = ustr ''R0lG'')"

text \<open>A Tk that encodes the texts without a surrogate code point (U+D800..U+DFFF).\<close>

definition no_surrogate :: "pystr \<Rightarrow> bool" where
  "no_surrogate t = list_all (\<lambda>c. c < 55296 \<or> 57343 < c) t"

definition sample_env :: "pystr \<Rightarrow> response attempt \<Rightarrow> response attempt \<Rightarrow> env" where
  "sample_env key primary other =
     \<lparr>API_KEY = key, requests_get = serve primary other, tk_recognizes = tk_gif,
      tk_encodes = no_surrogate, container_repr = (\<lambda>v. ustr ''[]'')\<rparr>"

definition sample_body :: "(pystr \<times> pyval) list \<Rightarrow> (pystr \<times> pyval) list \<Rightarrow> pyval" where
  "sample_body location_members condition_members =
     PDict [(ustr ''location'', PDict location_members),
            (ustr ''current'',
             PDict [(ustr ''temp_c'', PFloat (ustr ''11.0'')),
                    (ustr ''feelslike_c'', PFloat (ustr ''9.4'')),
                    (ustr ''humidity'', PInt 82),
                    (ustr ''wind_kph'', PFloat (ustr ''15.1'')),
                    (ustr ''condition'', PDict condition_members)])]"

definition oslo_location :: "(pystr \<times> pyval) list" where
  "oslo_location =
     [(ustr ''name'', PStr (ustr ''Oslo'')), (ustr ''region'', PStr (ustr ''Oslo'')),
      (ustr ''country'', PStr (ustr ''Norway''))]"

definition cloudy :: "pyval \<Rightarrow> (pystr \<times> pyval) list" where
  "cloudy icon = [(ustr ''text'', PStr (ustr ''Partly cloudy'')), (ustr ''icon'', icon)]"

definition icon_116 :: pyval where
  "icon_116 = PStr (ustr ''//cdn.weatherapi.com/weather/64x64/day/116.png'')"

definition html_bytes :: "8 word list" where
  "html_bytes = [60, 104, 116, 109, 108, 62]"

text \<open>A complete GIF image of one pixel.\<close>

definition gif_bytes :: "8 word list" where
  "gif_bytes =
     [71, 73, 70, 56, 57, 97, 1, 0, 1, 0, 128, 0, 0, 0, 0, 0, 255, 255, 255, 33, 249, 4, 1, 0,
      0, 0, 0, 44, 0, 0, 0, 0, 1, 0, 1, 0, 0, 2, 2, 68, 1, 0, 59]"

section \<open>Basic facts\<close>

lemma ustr_append: "ustr (a @ b) = ustr a @ ustr b"
  by (simp add: ustr_def)

lemma ustr_eq_Nil [simp]: "ustr s = [] \<longleftrightarrow> s = []" "[] = ustr s \<longleftrightarrow> s = []"
  by (auto simp: ustr_def)

lemma length_ustr [simp]: "length (ustr s) = length s"
  by (simp add: ustr_def)

lemma ustr_eq_iff [simp]: "ustr a = ustr b \<longleftrightarrow> a = b"
  by (simp add: ustr_def inj_map_eq_map inj_on_def)

lemma strip_Oslo: "strip (ustr '' Oslo '') = ustr ''Oslo''"
  by (simp add: strip_def ustr_def isspace_def)

lemma strip_idle: "strip (location_entry (idle_app (ustr '' Oslo ''))) = ustr ''Oslo''"
  by (simp add: idle_app_def strip_Oslo)

lemma result_var_set_takes:
  "tk_takes e t \<Longrightarrow> result_var_set e t s = (None, s\<lparr>result_var := t\<rparr>)"
  by (simp add: result_var_set_def)

lemma result_var_set_icon [simp]:
  "icon_image (snd (result_var_set e t s)) = icon_image s"
  "icon_label_image (snd (result_var_set e t s)) = icon_label_image s"
  by (simp_all add: result_var_set_def)

lemma and_then_Inr [simp]: "and_then (Inr v) f = f v"
  by (simp add: and_then_def)

lemma and_then_Inl [simp]: "and_then (Inl x) f = Inl x"
  by (simp add: and_then_def)

lemma strip_empty_iff: "strip s = [] \<longleftrightarrow> list_all isspace s"
proof
  assume "strip s = []"
  then have "dropWhile isspace (rev (dropWhile isspace s)) = []"
    by (simp add: strip_def)
  then have "\<forall>x \<in> set (dropWhile isspace s). isspace x"
    by (simp add: dropWhile_eq_Nil_conv)
  then have "dropWhile isspace s = []"
    by (metis hd_dropWhile hd_in_set)
  then show "list_all isspace s"
    by (simp add: dropWhile_eq_Nil_conv list_all_iff)
next
  assume "list_all isspace s"
  then show "strip s = []"
    by (auto simp: strip_def list_all_iff dest: set_dropWhileD)
qed

section \<open>Reading the fields\<close>

lemma extract_fields_dict:
  assumes "dict_get d (ustr ''location'') (PDict []) = PDict l"
    and "dict_get d (ustr ''current'') (PDict []) = PDict cur"
    and "py_or (dict_get cur (ustr ''condition'') (PDict [])) (PDict []) = PDict cnd"
  shows "extract_fields location (PDict d) =
     Inr \<lparr>name = dict_get l (ustr ''name'') (PStr location),
          region = dict_get l (ustr ''region'') (PStr []),
          country = dict_get l (ustr ''country'') (PStr []),
          temp_c = dict_get cur (ustr ''temp_c'') (PStr (ustr ''?'')),
          feelslike_c = dict_get cur (ustr ''feelslike_c'') (PStr (ustr ''?'')),
          humidity = dict_get cur (ustr ''humidity'') (PStr (ustr ''?'')),
          wind_kph = dict_get cur (ustr ''wind_kph'') (PStr (ustr ''?'')),
          cond_text = dict_get cnd (ustr ''text'') (PStr (ustr ''Unknown'')),
          icon_path = py_or (dict_get cnd (ustr ''icon'') (PStr [])) (PStr [])\<rparr>"
  using assms by (simp add: extract_fields_def)

lemma icon_url_of_str:
  "icon_url_of (PStr p) = Inr (if take 2 p = ustr ''//'' then ustr ''https:'' @ p else p)"
  by (simp add: icon_url_of_def numeral_2_eq_2)

lemma icon_step_completes_url:
  assumes "icon_step_completes e v"
  shows "\<exists>u. icon_url_of (py_or v (PStr [])) = Inr u \<and> (u = [] \<or> icon_quiet e u)"
  using assms by (cases v) (auto simp: py_or_def icon_url_of_str)

section \<open>The icon step and the result text\<close>

lemma fetch_icon_quiet:
  assumes "icon_quiet e u"
  shows "fst (fetch_icon e u s) = None"
    and "result_var (snd (fetch_icon e u s)) = result_var s"
    and "dialogs (snd (fetch_icon e u s)) = dialogs s"
  using assms
  by (auto simp: fetch_icon_def icon_quiet_def Let_def split: attempt.splits option.splits)


lemma details_textual:
  assumes "location_textual f"
  shows "details crepr location f = Inr (result_text crepr location f)"
  using assms
  by (simp add: details_def py_join_def location_line_def location_textual_def result_text_def)

lemma show_weather_completes:
  assumes f: "extract_fields location data = Inr f"
    and u: "icon_url_of (icon_path f) = Inr u"
    and q: "u = [] \<or> icon_quiet e u"
    and t: "location_textual f"
    and k: "tk_takes e (result_text (container_repr e) location f)"
  shows "fst (show_weather e location data s) = None"
    and "result_var (snd (show_weather e location data s)) =
           result_text (container_repr e) location f"
    and "dialogs (snd (show_weather e location data s)) = dialogs s"
proof -
  let ?s2 = "s\<lparr>icon_image := None, icon_label_image := None\<rparr>"
  let ?r = "if u \<noteq> [] then fetch_icon e u ?s2 else (None, ?s2)"
  have r1: "fst ?r = None" and r2: "dialogs (snd ?r) = dialogs s"
    using q by (auto simp: fetch_icon_quiet)
  obtain s3 where s3: "?r = (None, s3)"
    using r1 by (cases ?r) auto
  have sw: "show_weather e location data s =
      (None, s3\<lparr>result_var := result_text (container_repr e) location f\<rparr>)"
    unfolding show_weather_def Let_def f u sum.case s3 details_textual [OF t]
    by (simp add: result_var_set_takes [OF k])
  show "fst (show_weather e location data s) = None"
    by (simp add: sw)
  show "result_var (snd (show_weather e location data s)) =
           result_text (container_repr e) location f"
    by (simp add: sw)
  have "dialogs s3 = dialogs s"
    using r2 s3 by simp
  then show "dialogs (snd (show_weather e location data s)) = dialogs s"
    by (simp add: sw)
qed

lemma get_weather_success:
  assumes "strip (location_entry s) = location" "location \<noteq> []" "API_KEY e \<noteq> []"
    and "try_primary e (primary_request e location) = Returns data"
  shows "get_weather e s =
           show_weather e location data
             (s\<lparr>requests_sent := requests_sent s @ [primary_request e location]\<rparr>)"
  using assms by (simp add: get_weather_def Let_def)

lemma fetch_icon_image:
  assumes "icon_image s = None" and "icon_label_image s = None"
  shows "icon_image (snd (fetch_icon e u s)) = icon_label_image (snd (fetch_icon e u s))"
    and "icon_label_image (snd (fetch_icon e u s)) = None \<or>
         (\<exists>resp. requests_get e (icon_request u) = Returns resp \<and>
            icon_label_image (snd (fetch_icon e u s)) = Some (PhotoImage (b64encode (content resp))))"
  using assms
  by (auto simp: fetch_icon_def Let_def split: attempt.splits option.splits)

lemma show_weather_forgets_icon:
  "show_weather e location data (s\<lparr>icon_image := a, icon_label_image := b, requests_sent := r\<rparr>) =
   show_weather e location data (s\<lparr>requests_sent := r\<rparr>)"
  by (simp add: show_weather_def)

lemma show_weather_icon:
  shows "icon_image (snd (show_weather e location data s)) =
         icon_label_image (snd (show_weather e location data s))"
    and "icon_label_image (snd (show_weather e location data s)) = None \<or>
         (\<exists>f u resp. extract_fields location data = Inr f \<and> icon_url_of (icon_path f) = Inr u \<and>
            u \<noteq> [] \<and> requests_get e (icon_request u) = Returns resp \<and>
            icon_label_image (snd (show_weather e location data s)) =
              Some (PhotoImage (b64encode (content resp))))"
proof -
  let ?s2 = "s\<lparr>icon_image := None, icon_label_image := None\<rparr>"
  have c: "icon_image ?s2 = None" "icon_label_image ?s2 = None"
    by simp_all
  note fi = fetch_icon_image [OF c]
  show "icon_image (snd (show_weather e location data s)) =
         icon_label_image (snd (show_weather e location data s))"
  proof (cases "extract_fields location data")
    case (Inl x)
    then show ?thesis by (simp add: show_weather_def)
  next
    case f: (Inr f)
    show ?thesis
    proof (cases "icon_url_of (icon_path f)")
      case (Inl x)
      then show ?thesis using f by (simp add: show_weather_def)
    next
      case u: (Inr u)
      show ?thesis
      proof (cases "u = []")
        case True
        then show ?thesis using f u
          by (cases "details (container_repr e) location f") (simp_all add: show_weather_def)
      next
        case False
        obtain x s3 where r: "fetch_icon e u ?s2 = (x, s3)"
          by (cases "fetch_icon e u ?s2")
        have "icon_image s3 = icon_label_image s3"
          using fi(1) [of e u] r by simp
        then show ?thesis using f u False r
          by (cases x; cases "details (container_repr e) location f")
             (simp_all add: show_weather_def)
      qed
    qed
  qed
  show "icon_label_image (snd (show_weather e location data s)) = None \<or>
         (\<exists>f u resp. extract_fields location data = Inr f \<and> icon_url_of (icon_path f) = Inr u \<and>
            u \<noteq> [] \<and> requests_get e (icon_request u) = Returns resp \<and>
            icon_label_image (snd (show_weather e location data s)) =
              Some (PhotoImage (b64encode (content resp))))"
  proof (cases "extract_fields location data")
    case (Inl x)
    then show ?thesis by (simp add: show_weather_def)
  next
    case f: (Inr f)
    show ?thesis
    proof (cases "icon_url_of (icon_path f)")
      case (Inl x)
      then show ?thesis using f by (simp add: show_weather_def)
    next
      case u: (Inr u)
      show ?thesis
      proof (cases "u = []")
        case True
        then show ?thesis using f u
          by (cases "details (container_repr e) location f") (simp_all add: show_weather_def)
      next
        case False
        obtain x s3 where r: "fetch_icon e u ?s2 = (x, s3)"
          by (cases "fetch_icon e u ?s2")
        have "icon_label_image s3 = None \<or>
            (\<exists>resp. requests_get e (icon_request u) = Returns resp \<and>
               icon_label_image s3 = Some (PhotoImage (b64encode (content resp))))"
          using fi(2) [of e u] r by simp
        then show ?thesis using f u False r
          by (cases x; cases "details (container_repr e) location f")
             (auto simp: show_weather_def)
      qed
    qed
  qed
qed

lemma show_weather_no_icon:
  assumes "\<forall>f. extract_fields location data = Inr f \<longrightarrow> icon_path f = PStr []"
  shows "icon_label_image (snd (show_weather e location data s)) = None"
proof -
  have "\<not> (\<exists>f u. extract_fields location data = Inr f \<and> icon_url_of (icon_path f) = Inr u \<and> u \<noteq> [])"
    using assms by (auto simp: icon_url_of_str)
  then show ?thesis
    using show_weather_icon(2) [of e location data s] by blast
qed



lemma get_weather_completes:
  assumes loc: "strip (location_entry s) = location" "location \<noteq> []" "API_KEY e \<noteq> []"
    and p: "try_primary e (primary_request e location) = Returns data"
    and f: "extract_fields location data = Inr f"
    and i: "icon_path f = py_or v (PStr [])" "icon_step_completes e v"
    and t: "location_textual f"
    and k: "tk_takes e (result_text (container_repr e) location f)"
  shows "fst (get_weather e s) = None"
    and "result_var (snd (get_weather e s)) = result_text (container_repr e) location f"
    and "dialogs (snd (get_weather e s)) = dialogs s"
proof -
  obtain u where u: "icon_url_of (icon_path f) = Inr u" "u = [] \<or> icon_quiet e u"
    using icon_step_completes_url [OF i(2)] i(1) by auto
  note g = get_weather_success [OF loc p]
  show "fst (get_weather e s) = None"
    unfolding g by (rule show_weather_completes(1) [OF f u t k])
  show "result_var (snd (get_weather e s)) = result_text (container_repr e) location f"
    unfolding g by (rule show_weather_completes(2) [OF f u t k])
  show "dialogs (snd (get_weather e s)) = dialogs s"
    unfolding g by (simp add: show_weather_completes(3) [OF f u t k])
qed

lemma text_accepted_fields:
  "text_accepted e location data \<Longrightarrow> extract_fields location data = Inr f \<Longrightarrow>
   tk_takes e (result_text (container_repr e) location f)"
  by (simp add: text_accepted_def)

section \<open>Runs that end with an exception, and the sample runs\<close>

lemma show_weather_image_error:
  assumes "extract_fields location data = Inr f"
    and "icon_url_of (icon_path f) = Inr u" and "u \<noteq> []"
    and "requests_get e (icon_request u) = Returns resp" and "raise_for_status resp = None"
    and "\<not> tk_recognizes e (b64encode (content resp))"
  shows "show_weather e location data s =
           (Some TclError, s\<lparr>icon_image := None, icon_label_image := None,
                              requests_sent := requests_sent s @ [icon_request u]\<rparr>)"
  using assms by (simp add: show_weather_def fetch_icon_def Let_def)

lemma show_weather_extract_error:
  assumes "extract_fields location data = Inl x"
  shows "show_weather e location data s =
           (Some x, s\<lparr>icon_image := None, icon_label_image := None\<rparr>)"
  using assms by (simp add: show_weather_def)



lemma http_ok_simps [simp]:
  "raise_for_status (http_ok body bytes) = None"
  "json (http_ok body bytes) = body"
  "content (http_ok body bytes) = bytes"
  by (simp_all add: http_ok_def raise_for_status_def)

lemma sample_primary:
  "try_primary (sample_env (ustr ''k'') (Returns (http_ok (Returns body) [])) other)
     (primary_request (sample_env (ustr ''k'') (Returns (http_ok (Returns body) [])) other) location) =
   Returns body"
  by (simp add: sample_env_def serve_def primary_request_def try_primary_def)

lemma sample_key: "API_KEY (sample_env (ustr ''k'') primary other) \<noteq> []"
  by (simp add: sample_env_def)

lemma sample_other:
  "u \<noteq> API_URL \<Longrightarrow> requests_get (sample_env key primary other) (icon_request u) = other"
  by (simp add: sample_env_def serve_def icon_request_def)

lemma icon_116_url:
  "icon_url_of icon_116 = Inr (ustr ''https://cdn.weatherapi.com/weather/64x64/day/116.png'')"
  by (simp add: icon_116_def icon_url_of_str ustr_def)

lemma icon_116_not_api: "ustr ''https://cdn.weatherapi.com/weather/64x64/day/116.png'' \<noteq> API_URL"
  by (simp add: API_URL_def)

lemma html_not_image: "\<not> tk_gif (b64encode html_bytes)"
  by (simp add: tk_gif_def html_bytes_def b64_char_def b64_alphabet_def ustr_def)

lemma gif_image: "tk_gif (b64encode gif_bytes)"
  by (simp add: tk_gif_def gif_bytes_def b64_char_def b64_alphabet_def ustr_def)

lemma extract_sample:
  "extract_fields location (sample_body l cnd) =
     Inr \<lparr>name = dict_get l (ustr ''name'') (PStr location),
          region = dict_get l (ustr ''region'') (PStr []),
          country = dict_get l (ustr ''country'') (PStr []),
          temp_c = PFloat (ustr ''11.0''), feelslike_c = PFloat (ustr ''9.4''),
          humidity = PInt 82, wind_kph = PFloat (ustr ''15.1''),
          cond_text = dict_get cnd (ustr ''text'') (PStr (ustr ''Unknown'')),
          icon_path = py_or (dict_get cnd (ustr ''icon'') (PStr [])) (PStr [])\<rparr>"
  by (simp add: sample_body_def extract_fields_def dict_get_def py_or_def)

lemma str_join_Cons_nonempty: "x \<noteq> [] \<Longrightarrow> str_join sep (x # xs) \<noteq> []"
  by (cases xs) simp_all

lemma sample_run:
  assumes "strip (location_entry s) = ustr ''Oslo''"
  shows "get_weather (sample_env (ustr ''k'') (Returns (http_ok (Returns body) [])) other) s =
         show_weather (sample_env (ustr ''k'') (Returns (http_ok (Returns body) [])) other) (ustr ''Oslo'') body
           (s\<lparr>requests_sent := requests_sent s @
              [\<lparr>url = API_URL,
                params = [(ustr ''key'', ustr ''k''), (ustr ''q'', ustr ''Oslo''),
                          (ustr ''aqi'', ustr ''no'')],
                timeout = 10\<rparr>]\<rparr>)"
proof -
  have "primary_request (sample_env (ustr ''k'') (Returns (http_ok (Returns body) [])) other) (ustr ''Oslo'') =
        \<lparr>url = API_URL,
         params = [(ustr ''key'', ustr ''k''), (ustr ''q'', ustr ''Oslo''), (ustr ''aqi'', ustr ''no'')],
         timeout = 10\<rparr>"
    by (simp add: primary_request_def sample_env_def)
  then show ?thesis
    using get_weather_success [OF assms _ sample_key sample_primary, of body other]
    by simp
qed

lemma sample_icon_116: "icon_path f = icon_116 \<Longrightarrow>
    icon_url_of (icon_path f) = Inr (ustr ''https://cdn.weatherapi.com/weather/64x64/day/116.png'')"
  by (simp only: icon_116_url)

lemma sample_image_error:
  assumes "strip (location_entry s) = ustr ''Oslo''"
    and "dict_get cnd (ustr ''icon'') (PStr []) = icon_116"
  shows "get_weather
           (sample_env (ustr ''k'') (Returns (http_ok (Returns (sample_body l cnd)) []))
              (Returns (http_ok (RequestException []) html_bytes))) s =
         (Some TclError,
          s\<lparr>requests_sent := requests_sent s @
               [\<lparr>url = API_URL,
                 params = [(ustr ''key'', ustr ''k''), (ustr ''q'', ustr ''Oslo''),
                           (ustr ''aqi'', ustr ''no'')],
                 timeout = 10\<rparr>,
                \<lparr>url = ustr ''https://cdn.weatherapi.com/weather/64x64/day/116.png'',
                 params = [], timeout = 10\<rparr>],
             icon_image := None, icon_label_image := None\<rparr>)"
proof -
  let ?e = "sample_env (ustr ''k'') (Returns (http_ok (Returns (sample_body l cnd)) []))
              (Returns (http_ok (RequestException []) html_bytes))"
  let ?u = "ustr ''https://cdn.weatherapi.com/weather/64x64/day/116.png''"
  let ?f = "\<lparr>name = dict_get l (ustr ''name'') (PStr (ustr ''Oslo'')),
          region = dict_get l (ustr ''region'') (PStr []),
          country = dict_get l (ustr ''country'') (PStr []),
          temp_c = PFloat (ustr ''11.0''), feelslike_c = PFloat (ustr ''9.4''),
          humidity = PInt 82, wind_kph = PFloat (ustr ''15.1''),
          cond_text = dict_get cnd (ustr ''text'') (PStr (ustr ''Unknown'')),
          icon_path = py_or (dict_get cnd (ustr ''icon'') (PStr [])) (PStr [])\<rparr>"
  have x: "extract_fields (ustr ''Oslo'') (sample_body l cnd) = Inr ?f"
    by (rule extract_sample)
  have "icon_path ?f = icon_116"
    by (simp add: assms(2) py_or_def icon_116_def)
  then have u: "icon_url_of (icon_path ?f) = Inr ?u"
    by (rule sample_icon_116)
  have r: "requests_get ?e (icon_request ?u) = Returns (http_ok (RequestException []) html_bytes)"
    by (rule sample_other [OF icon_116_not_api])
  have n: "\<not> tk_recognizes ?e (b64encode (content (http_ok (RequestException []) html_bytes)))"
    by (simp add: sample_env_def html_not_image)
  have sw: "show_weather ?e (ustr ''Oslo'') (sample_body l cnd) s' =
           (Some TclError, s'\<lparr>icon_image := None, icon_label_image := None,
                              requests_sent := requests_sent s' @ [icon_request ?u]\<rparr>)" for s'
    by (rule show_weather_image_error [OF x u _ r _ n]) simp_all
  show ?thesis
    unfolding sample_run [OF assms(1)] sw
    by (simp add: icon_request_def)
qed

lemma sample_extract_error:
  assumes "extract_fields (ustr ''Oslo'') body = Inl x"
  shows "get_weather (sample_env (ustr ''k'') (Returns (http_ok (Returns body) [])) other)
           (idle_app (ustr '' Oslo '')) =
         (Some x, (idle_app (ustr '' Oslo ''))\<lparr>requests_sent :=
              [\<lparr>url = API_URL,
                params = [(ustr ''key'', ustr ''k''), (ustr ''q'', ustr ''Oslo''),
                          (ustr ''aqi'', ustr ''no'')],
                timeout = 10\<rparr>]\<rparr>)"
  unfolding sample_run [OF strip_idle] show_weather_extract_error [OF assms]
  by (simp add: idle_app_def)

lemma oslo_body:
  "sample_body l cnd =
     PDict [(ustr ''location'', PDict l),
            (ustr ''current'',
             PDict [(ustr ''temp_c'', PFloat (ustr ''11.0'')),
                    (ustr ''feelslike_c'', PFloat (ustr ''9.4'')),
                    (ustr ''humidity'', PInt 82),
                    (ustr ''wind_kph'', PFloat (ustr ''15.1'')),
                    (ustr ''condition'', PDict cnd)])]"
  by (simp add: sample_body_def)

lemma icon_116_completes:
  assumes "icon_quiet e (ustr ''https://cdn.weatherapi.com/weather/64x64/day/116.png'')"
  shows "icon_step_completes e icon_116"
proof -
  have "(if take 2 (ustr ''//cdn.weatherapi.com/weather/64x64/day/116.png'') = ustr ''//''
         then ustr ''https:'' @ ustr ''//cdn.weatherapi.com/weather/64x64/day/116.png''
         else ustr ''//cdn.weatherapi.com/weather/64x64/day/116.png'') =
        ustr ''https://cdn.weatherapi.com/weather/64x64/day/116.png''"
    by (simp add: ustr_def)
  then show ?thesis
    using assms by (simp add: icon_116_def)
qed

lemma gif_quiet:
  "icon_quiet (sample_env key primary (Returns (http_ok body gif_bytes)))
     (ustr ''https://cdn.weatherapi.com/weather/64x64/day/116.png'')"
  by (simp add: icon_quiet_def sample_other [OF icon_116_not_api])
     (simp add: sample_env_def gif_image)

lemma str_82: "str_int 82 = ustr ''82''"
  by (simp add: str_int_def digits.simps ustr_def)

lemma oslo_line:
  "location_line \<lparr>name = PStr (ustr ''Oslo''), region = PStr (ustr ''Oslo''),
      country = PStr (ustr ''Norway''), temp_c = a, feelslike_c = b, humidity = c, wind_kph = d,
      cond_text = t, icon_path = i\<rparr> = ustr ''Oslo, Oslo, Norway''"
  by (simp add: location_line_def List.map_filter_simps ustr_def)

text \<open>
  A run in which Tk refuses the text: the name in the body is the lone surrogate U+D83D.
  \<open>UnicodeEncodeError\<close> leaves \<open>get_weather\<close> and the result text keeps its value.
\<close>

lemma lone_surrogate_refused:
  "get_weather
     (sample_env (ustr ''k'') (Returns (http_ok (Returns (sample_body [(ustr ''name'', PStr [55357])] [])) []))
        (RequestException (ustr ''timed out'')))
     (idle_app (ustr '' Oslo '')) =
   (Some UnicodeEncodeError,
    (idle_app (ustr '' Oslo ''))\<lparr>requests_sent :=
       [\<lparr>url = API_URL,
         params = [(ustr ''key'', ustr ''k''), (ustr ''q'', ustr ''Oslo''), (ustr ''aqi'', ustr ''no'')],
         timeout = 10\<rparr>]\<rparr>)"
proof -
  let ?l = "[(ustr ''name'', PStr [55357])]"
  let ?e = "sample_env (ustr ''k'') (Returns (http_ok (Returns (sample_body ?l [])) []))
              (RequestException (ustr ''timed out''))"
  let ?f = "\<lparr>name = PStr [55357], region = PStr [], country = PStr [],
          temp_c = PFloat (ustr ''11.0''), feelslike_c = PFloat (ustr ''9.4''),
          humidity = PInt 82, wind_kph = PFloat (ustr ''15.1''),
          cond_text = PStr (ustr ''Unknown''), icon_path = PStr []\<rparr>"
  have x: "extract_fields (ustr ''Oslo'') (sample_body ?l []) = Inr ?f"
    using extract_sample [of "ustr ''Oslo''" ?l "[]"]
    by (simp add: dict_get_def py_or_def)
  have t: "location_textual ?f"
    by (simp add: location_textual_def)
  have "result_text (container_repr ?e) (ustr ''Oslo'') ?f =
          [55357, 10] @ ustr ''Condition: Unknown'' @ [10] @ ustr ''Temperature: 11.0'' @ [176]
          @ ustr ''C (feels like 9.4'' @ [176] @ ustr ''C)'' @ [10] @ ustr ''Humidity: 82%''
          @ [10] @ ustr ''Wind: 15.1 kph''"
    by (simp add: result_text_def location_line_def List.map_filter_simps weather_lines_def str_82)
       (simp add: ustr_def)
  then have "\<not> tk_takes ?e (result_text (container_repr ?e) (ustr ''Oslo'') ?f)"
    by (simp add: tk_takes_def is_ascii_def sample_env_def no_surrogate_def)
  then have "show_weather ?e (ustr ''Oslo'') (sample_body ?l []) s' =
      (Some UnicodeEncodeError, s'\<lparr>icon_image := None, icon_label_image := None\<rparr>)" for s'
    by (simp add: show_weather_def x icon_url_of_str details_textual [OF t] result_var_set_def)
  then show ?thesis
    unfolding sample_run [OF strip_idle]
    by (simp add: idle_app_def)
qed

section \<open>Input validation and configuration\<close>

text \<open>
  Claim C2. When the text of the location entry is empty or consists of whitespace only,
  \<open>get_weather\<close> shows the dialog "Enter a location" and changes nothing else: no
  request is sent, and the result text and the icon stay as they were.
\<close>

theorem get_weather_blank_input:
  assumes "list_all isspace (location_entry s)"
  shows "get_weather e s =
           (None, s\<lparr>dialogs := dialogs s @
              [(ustr ''Enter a location'', ustr ''Please type a city or ZIP/postal code.'')]\<rparr>)"
  using assms by (simp add: get_weather_def strip_empty_iff)

theorem get_weather_blank_input_witness:
  "list_all isspace (location_entry (idle_app [32, 9, 160, 32])) \<and>
   get_weather (sample_env (ustr ''k'') (RequestException (ustr ''down'')) (RequestException (ustr ''down''))) (idle_app [32, 9, 160, 32]) =
     (None, \<lparr>location_entry = [32, 9, 160, 32], result_var = ustr ''Enter a location to begin.'',
      icon_label_image = None, icon_label_bg = colors_surface, icon_image = None,
      requests_sent = [],
      dialogs = [(ustr ''Enter a location'', ustr ''Please type a city or ZIP/postal code.'')]\<rparr>)"
proof -
  have h: "list_all isspace (location_entry (idle_app [32, 9, 160, 32]))"
    by (simp add: idle_app_def isspace_def)
  show ?thesis
    using h get_weather_blank_input [OF h, of "sample_env (ustr ''k'') (RequestException (ustr ''down'')) (RequestException (ustr ''down''))"]
    by (simp add: idle_app_def)
qed

text \<open>
  Claim C3. When the trimmed location is not empty and the configured key is the empty
  text, \<open>get_weather\<close> sets the result text to the fixed message about the missing key
  and changes nothing else; in particular no request is sent.
\<close>

theorem get_weather_missing_key:
  assumes "strip (location_entry s) \<noteq> []" and "API_KEY e = []"
  shows "get_weather e s =
           (None, s\<lparr>result_var :=
              ustr ''Missing API key. Add your key to api_config.py (kept out of git).''\<rparr>)"
proof -
  have "is_ascii (ustr ''Missing API key. Add your key to api_config.py (kept out of git).'')"
    by (simp add: is_ascii_def ustr_def)
  then show ?thesis
    using assms by (simp add: get_weather_def result_var_set_def tk_takes_def)
qed

theorem get_weather_missing_key_witness:
  "strip (location_entry (idle_app (ustr '' Oslo ''))) \<noteq> [] \<and>
   API_KEY (sample_env [] (RequestException (ustr ''down'')) (RequestException (ustr ''down''))) = [] \<and>
   requests_sent (snd (get_weather (sample_env [] (RequestException (ustr ''down'')) (RequestException (ustr ''down''))) (idle_app (ustr '' Oslo '')))) = [] \<and>
   result_var (snd (get_weather (sample_env [] (RequestException (ustr ''down'')) (RequestException (ustr ''down''))) (idle_app (ustr '' Oslo '')))) =
     ustr ''Missing API key. Add your key to api_config.py (kept out of git).''"
proof -
  have h1: "strip (location_entry (idle_app (ustr '' Oslo ''))) \<noteq> []"
    by (simp add: idle_app_def strip_Oslo)
  have h2: "API_KEY (sample_env [] (RequestException (ustr ''down'')) (RequestException (ustr ''down''))) = []"
    by (simp add: sample_env_def)
  show ?thesis
    using h1 h2 get_weather_missing_key [OF h1 h2]
    by (simp add: idle_app_def)
qed

section \<open>Failure of the primary request\<close>

text \<open>
  Claim C4, as the claim states it, fails for a status that is not 2xx and not an error
  status. In the run below the primary response has status 300 and a JSON body:
  \<open>raise_for_status()\<close> returns, \<open>json()\<close> returns the body, and \<open>get_weather\<close> shows the
  weather text, not a text starting with "Error fetching weather data:".
\<close>

theorem status_300_counterexample:
  "fst (get_weather
          (sample_env (ustr ''k'')
             (Returns ((http_ok (Returns (sample_body oslo_location (cloudy (PStr [])))) [])
                         \<lparr>status_code := 300, reason := ustr ''Multiple Choices''\<rparr>))
             (RequestException (ustr ''timed out'')))
          (idle_app (ustr '' Oslo ''))) = None \<and>
   result_var (snd (get_weather
          (sample_env (ustr ''k'')
             (Returns ((http_ok (Returns (sample_body oslo_location (cloudy (PStr [])))) [])
                         \<lparr>status_code := 300, reason := ustr ''Multiple Choices''\<rparr>))
             (RequestException (ustr ''timed out'')))
          (idle_app (ustr '' Oslo '')))) =
   ustr ''Oslo, Oslo, Norway'' @ [10] @ ustr ''Condition: Partly cloudy'' @ [10] @
   ustr ''Temperature: 11.0'' @ [176] @ ustr ''C (feels like 9.4'' @ [176] @ ustr ''C)'' @ [10] @
   ustr ''Humidity: 82%'' @ [10] @ ustr ''Wind: 15.1 kph'' \<and>
   \<not> prefix (ustr ''Error fetching weather data:'')
       (result_var (snd (get_weather
          (sample_env (ustr ''k'')
             (Returns ((http_ok (Returns (sample_body oslo_location (cloudy (PStr [])))) [])
                         \<lparr>status_code := 300, reason := ustr ''Multiple Choices''\<rparr>))
             (RequestException (ustr ''timed out'')))
          (idle_app (ustr '' Oslo '')))))"
proof -
  let ?body = "sample_body oslo_location (cloudy (PStr []))"
  let ?e = "sample_env (ustr ''k'')
             (Returns ((http_ok (Returns ?body) [])
                         \<lparr>status_code := 300, reason := ustr ''Multiple Choices''\<rparr>))
             (RequestException (ustr ''timed out''))"
  let ?f = "\<lparr>name = PStr (ustr ''Oslo''), region = PStr (ustr ''Oslo''),
          country = PStr (ustr ''Norway''),
          temp_c = PFloat (ustr ''11.0''), feelslike_c = PFloat (ustr ''9.4''),
          humidity = PInt 82, wind_kph = PFloat (ustr ''15.1''),
          cond_text = PStr (ustr ''Partly cloudy''), icon_path = PStr []\<rparr>"
  have h2: "ustr ''Oslo'' \<noteq> []"
    by simp
  have p: "try_primary ?e (primary_request ?e (ustr ''Oslo'')) = Returns ?body"
    by (simp add: sample_env_def serve_def primary_request_def try_primary_def
        raise_for_status_def http_ok_def)
  have x: "extract_fields (ustr ''Oslo'') ?body = Inr ?f"
    using extract_sample [of "ustr ''Oslo''" oslo_location "cloudy (PStr [])"]
    by (simp add: oslo_location_def cloudy_def dict_get_def py_or_def)
  have i: "icon_path ?f = py_or (PStr []) (PStr [])" "icon_step_completes ?e (PStr [])"
    by (simp_all add: py_or_def)
  have t: "location_textual ?f"
    by (simp add: location_textual_def)
  have r: "result_text (container_repr ?e) (ustr ''Oslo'') ?f =
      ustr ''Oslo, Oslo, Norway'' @ [10] @ ustr ''Condition: Partly cloudy'' @ [10] @
      ustr ''Temperature: 11.0'' @ [176] @ ustr ''C (feels like 9.4'' @ [176] @ ustr ''C)'' @ [10] @
      ustr ''Humidity: 82%'' @ [10] @ ustr ''Wind: 15.1 kph''"
    by (simp add: result_text_def oslo_line weather_lines_def str_82) (simp add: ustr_def)
  have k: "tk_takes ?e (result_text (container_repr ?e) (ustr ''Oslo'') ?f)"
    unfolding r by (simp add: tk_takes_def sample_env_def no_surrogate_def ustr_def)
  have n: "\<not> prefix (ustr ''Error fetching weather data:'')
      (ustr ''Oslo, Oslo, Norway'' @ [10] @ ustr ''Condition: Partly cloudy'' @ [10] @
      ustr ''Temperature: 11.0'' @ [176] @ ustr ''C (feels like 9.4'' @ [176] @ ustr ''C)'' @ [10] @
      ustr ''Humidity: 82%'' @ [10] @ ustr ''Wind: 15.1 kph'')"
    by (simp add: ustr_def)
  show ?thesis
    using get_weather_completes(1,2) [OF strip_idle h2 sample_key p x i t k] n
    by (simp only: r) simp
qed

text \<open>
  Claim C4, amended. When \<open>requests.get\<close> raises a \<open>RequestException\<close>, or the response has
  a status from 400 to 599 (\<open>raise_for_status()\<close> raises \<open>HTTPError\<close>), or the status is
  outside that range and \<open>json()\<close> raises \<open>requests.JSONDecodeError\<close>, and \<open>detail\<close> is the
  text of that exception, and Tk takes the text "Error fetching weather data: " followed
  by \<open>detail\<close>, then \<open>get_weather\<close> returns normally, that text is the result text, and
  the icon label and the stored image are cleared.
\<close>

theorem get_weather_primary_failure:
  assumes "strip (location_entry s) = location" and "location \<noteq> []" and "API_KEY e \<noteq> []"
    and "requests_get e (primary_request e location) = RequestException detail \<or>
         (\<exists>resp. requests_get e (primary_request e location) = Returns resp \<and>
            (400 \<le> status_code resp \<and> status_code resp < 600 \<and> detail = http_error_msg resp \<or>
             \<not> (400 \<le> status_code resp \<and> status_code resp < 600) \<and>
             json resp = RequestException detail))"
    and "tk_takes e (ustr ''Error fetching weather data: '' @ detail)"
  shows "get_weather e s =
           (None, s\<lparr>requests_sent := requests_sent s @ [primary_request e location],
                       result_var := ustr ''Error fetching weather data: '' @ detail,
                       icon_label_image := None, icon_image := None\<rparr>) \<and>
         prefix (ustr ''Error fetching weather data:'') (result_var (snd (get_weather e s)))"
proof -
  have "try_primary e (primary_request e location) = RequestException detail"
    using assms(4) by (auto simp: try_primary_def raise_for_status_def)
  then have g: "get_weather e s =
           (None, s\<lparr>requests_sent := requests_sent s @ [primary_request e location],
                       result_var := ustr ''Error fetching weather data: '' @ detail,
                       icon_label_image := None, icon_image := None\<rparr>)"
    using assms(1-3) by (simp add: get_weather_def Let_def result_var_set_takes [OF assms(5)])
  have "ustr ''Error fetching weather data: '' = ustr ''Error fetching weather data:'' @ ustr '' ''"
    by (simp add: ustr_def)
  then have "prefix (ustr ''Error fetching weather data:'') (ustr ''Error fetching weather data: '' @ detail)"
    by (simp del: ustr_eq_iff)
  with g show ?thesis by simp
qed

theorem get_weather_primary_failure_witness:
  "get_weather
     (sample_env (ustr ''k'')
        (Returns ((http_ok (RequestException []) [])\<lparr>status_code := 403, reason := ustr ''Forbidden''\<rparr>))
        (RequestException []))
     ((idle_app (ustr '' Oslo ''))\<lparr>icon_image := Some (PhotoImage (ustr ''R0lG'')),
                                     icon_label_image := Some (PhotoImage (ustr ''R0lG''))\<rparr>) =
   (None, \<lparr>location_entry = ustr '' Oslo '',
      result_var =
        ustr ''Error fetching weather data: 403 Client Error: Forbidden for url: https://example.org/'',
      icon_label_image = None, icon_label_bg = colors_surface, icon_image = None,
      requests_sent = [\<lparr>url = API_URL, params = [(ustr ''key'', ustr ''k''), (ustr ''q'', ustr ''Oslo''), (ustr ''aqi'', ustr ''no'')], timeout = 10\<rparr>],
      dialogs = []\<rparr>)"
proof -
  let ?resp = "(http_ok (RequestException []) [])\<lparr>status_code := 403, reason := ustr ''Forbidden''\<rparr>"
  let ?e = "sample_env (ustr ''k'') (Returns ?resp) (RequestException [])"
  let ?s = "(idle_app (ustr '' Oslo ''))\<lparr>icon_image := Some (PhotoImage (ustr ''R0lG'')), icon_label_image := Some (PhotoImage (ustr ''R0lG''))\<rparr>"
  let ?detail = "ustr ''403 Client Error: Forbidden for url: https://example.org/''"
  have h1: "strip (location_entry ?s) = ustr ''Oslo''"
    by (simp add: idle_app_def strip_Oslo)
  have h2: "ustr ''Oslo'' \<noteq> []"
    by simp
  have h3: "API_KEY ?e \<noteq> []"
    by (simp add: sample_env_def)
  have m: "http_error_msg ?resp = ?detail"
    by (simp add: http_error_msg_def http_ok_def str_int_def digits.simps ustr_def)
  have h4: "requests_get ?e (primary_request ?e (ustr ''Oslo'')) = RequestException ?detail \<or>
         (\<exists>resp. requests_get ?e (primary_request ?e (ustr ''Oslo'')) = Returns resp \<and>
            (400 \<le> status_code resp \<and> status_code resp < 600 \<and> ?detail = http_error_msg resp \<or>
             \<not> (400 \<le> status_code resp \<and> status_code resp < 600) \<and>
             json resp = RequestException ?detail))"
    by (simp add: sample_env_def serve_def primary_request_def m)
  have h5: "tk_takes ?e (ustr ''Error fetching weather data: '' @ ?detail)"
    by (simp add: tk_takes_def is_ascii_def ustr_def)
  show ?thesis
    using get_weather_primary_failure [OF h1 h2 h3 h4 h5]
    by (simp add: idle_app_def primary_request_def sample_env_def ustr_append [symmetric])
qed

section \<open>The result text\<close>




text \<open>
  Claim C8, as the claim states it, fails: a body whose \<open>current\<close> member is \<open>null\<close> has no
  condition object, and \<open>current.get\<close> raises \<open>AttributeError\<close>; the result text is not
  set.
\<close>

theorem null_current_counterexample:
  "fst (get_weather
          (sample_env (ustr ''k'') (Returns (http_ok (Returns (PDict [(ustr ''current'', PNone)])) []))
             (RequestException (ustr ''timed out'')))
          (idle_app (ustr '' Oslo ''))) = Some AttributeError \<and>
   result_var (snd (get_weather
          (sample_env (ustr ''k'') (Returns (http_ok (Returns (PDict [(ustr ''current'', PNone)])) []))
             (RequestException (ustr ''timed out'')))
          (idle_app (ustr '' Oslo '')))) = ustr ''Enter a location to begin.''"
proof -
  have x: "extract_fields (ustr ''Oslo'') (PDict [(ustr ''current'', PNone)]) = Inl AttributeError"
    by (simp add: extract_fields_def dict_get_def)
  show ?thesis
    unfolding sample_extract_error [OF x]
    by (simp add: idle_app_def)
qed

text \<open>
  Claim C8, amended. When the body is an object whose \<open>location\<close> and \<open>current\<close> members
  are objects where present, the location members that count as true are texts,
  \<open>current\<close> has no \<open>condition\<close> member or the member is \<open>null\<close>, and Tk takes the text
  built from the body, \<open>get_weather\<close> returns normally and the second line of the result
  text is exactly "Condition: Unknown".
\<close>

theorem get_weather_no_condition:
  assumes "strip (location_entry s) = location" and "location \<noteq> []" and "API_KEY e \<noteq> []"
    and "try_primary e (primary_request e location) = Returns (PDict d)"
    and "dict_get d (ustr ''location'') (PDict []) = PDict l"
    and "dict_get d (ustr ''current'') (PDict []) = PDict cur"
    and "map_of cur (ustr ''condition'') = None \<or> map_of cur (ustr ''condition'') = Some PNone"
    and "list_all is_str (filter py_bool
           [dict_get l (ustr ''name'') (PStr location), dict_get l (ustr ''region'') (PStr []),
            dict_get l (ustr ''country'') (PStr [])])"
    and "text_accepted e location (PDict d)"
  shows "\<exists>f. extract_fields location (PDict d) = Inr f \<and>
           fst (get_weather e s) = None \<and>
           result_var (snd (get_weather e s)) =
             str_join [10]
               [if location_line f \<noteq> [] then location_line f else location,
                ustr ''Condition: Unknown'',
                ustr ''Temperature: '' @ py_format (container_repr e) (temp_c f) @ [176]
                  @ ustr ''C (feels like '' @ py_format (container_repr e) (feelslike_c f) @ [176]
                  @ ustr ''C)'',
                ustr ''Humidity: '' @ py_format (container_repr e) (humidity f) @ ustr ''%'',
                ustr ''Wind: '' @ py_format (container_repr e) (wind_kph f) @ ustr '' kph'']"
proof -
  let ?f = "\<lparr>name = dict_get l (ustr ''name'') (PStr location),
          region = dict_get l (ustr ''region'') (PStr []),
          country = dict_get l (ustr ''country'') (PStr []),
          temp_c = dict_get cur (ustr ''temp_c'') (PStr (ustr ''?'')),
          feelslike_c = dict_get cur (ustr ''feelslike_c'') (PStr (ustr ''?'')),
          humidity = dict_get cur (ustr ''humidity'') (PStr (ustr ''?'')),
          wind_kph = dict_get cur (ustr ''wind_kph'') (PStr (ustr ''?'')),
          cond_text = PStr (ustr ''Unknown''), icon_path = PStr []\<rparr>"
  have c: "py_or (dict_get cur (ustr ''condition'') (PDict [])) (PDict []) = PDict []"
    using assms(7) by (auto simp: dict_get_def py_or_def)
  have x: "extract_fields location (PDict d) = Inr ?f"
    by (simp add: extract_fields_dict [OF assms(5,6) c] dict_get_def py_or_def)
  have i: "icon_path ?f = py_or (PStr []) (PStr [])" "icon_step_completes e (PStr [])"
    by (simp_all add: py_or_def)
  have t: "location_textual ?f"
    using assms(8) by (simp add: location_textual_def)
  have k: "tk_takes e (result_text (container_repr e) location ?f)"
    by (rule text_accepted_fields [OF assms(9) x])
  have "ustr ''Condition: '' @ ustr ''Unknown'' = ustr ''Condition: Unknown''"
    by (simp add: ustr_def)
  then show ?thesis
    using get_weather_completes(1,2) [OF assms(1-4) x i t k] x
    by (simp add: weather_lines_def result_text_def)
qed

theorem get_weather_no_condition_witness:
  "fst (get_weather
          (sample_env (ustr ''k'')
             (Returns (http_ok (Returns (PDict [(ustr ''location'', PDict oslo_location),
                  (ustr ''current'', PDict [(ustr ''humidity'', PInt 82), (ustr ''condition'', PNone)])])) []))
             (RequestException (ustr ''timed out'')))
          (idle_app (ustr '' Oslo ''))) = None \<and>
   result_var (snd (get_weather
          (sample_env (ustr ''k'')
             (Returns (http_ok (Returns (PDict [(ustr ''location'', PDict oslo_location),
                  (ustr ''current'', PDict [(ustr ''humidity'', PInt 82), (ustr ''condition'', PNone)])])) []))
             (RequestException (ustr ''timed out'')))
          (idle_app (ustr '' Oslo '')))) =
   ustr ''Oslo, Oslo, Norway'' @ [10] @ ustr ''Condition: Unknown'' @ [10] @
   ustr ''Temperature: ?'' @ [176] @ ustr ''C (feels like ?'' @ [176] @ ustr ''C)'' @ [10] @
   ustr ''Humidity: 82%'' @ [10] @ ustr ''Wind: ? kph''"
proof -
  let ?cur = "[(ustr ''humidity'', PInt 82), (ustr ''condition'', PNone)]"
  let ?d = "[(ustr ''location'', PDict oslo_location), (ustr ''current'', PDict ?cur)]"
  let ?e = "sample_env (ustr ''k'') (Returns (http_ok (Returns (PDict ?d)) [])) (RequestException (ustr ''timed out''))"
  have h2: "ustr ''Oslo'' \<noteq> []"
    by simp
  have h5: "dict_get ?d (ustr ''location'') (PDict []) = PDict oslo_location"
    and h6: "dict_get ?d (ustr ''current'') (PDict []) = PDict ?cur"
    by (simp_all add: dict_get_def)
  have h7: "map_of ?cur (ustr ''condition'') = None \<or> map_of ?cur (ustr ''condition'') = Some PNone"
    by simp
  have h8: "list_all is_str (filter py_bool
           [dict_get oslo_location (ustr ''name'') (PStr (ustr ''Oslo'')),
            dict_get oslo_location (ustr ''region'') (PStr []),
            dict_get oslo_location (ustr ''country'') (PStr [])])"
    by (simp add: oslo_location_def dict_get_def)
  have x: "extract_fields (ustr ''Oslo'') (PDict ?d) =
     Inr \<lparr>name = PStr (ustr ''Oslo''), region = PStr (ustr ''Oslo''),
          country = PStr (ustr ''Norway''),
          temp_c = PStr (ustr ''?''), feelslike_c = PStr (ustr ''?''),
          humidity = PInt 82, wind_kph = PStr (ustr ''?''),
          cond_text = PStr (ustr ''Unknown''), icon_path = PStr []\<rparr>"
    by (simp add: extract_fields_def oslo_location_def dict_get_def py_or_def)
  have h9: "text_accepted ?e (ustr ''Oslo'') (PDict ?d)"
    by (simp add: text_accepted_def x result_text_def oslo_line weather_lines_def str_82
        tk_takes_def sample_env_def)
       (simp add: no_surrogate_def ustr_def)
  show ?thesis
    using get_weather_no_condition [OF strip_idle h2 sample_key sample_primary h5 h6 h7 h8 h9]
    by (simp add: x oslo_line str_82) (simp add: ustr_def)
qed

text \<open>
  Claim C9, as the claim states it, fails. In both runs below the location object has
  no \<open>name\<close>. In the first the icon bytes are no image, in the second \<open>current\<close> is a
  number; an exception leaves \<open>get_weather\<close> and the result text keeps its earlier value,
  whose first line is not the query.
\<close>

theorem name_fallback_counterexample:
  "fst (get_weather
          (sample_env (ustr ''k'')
             (Returns (http_ok (Returns (sample_body [(ustr ''country'', PStr (ustr ''Norway''))]
                                   [(ustr ''icon'', icon_116)])) []))
             (Returns (http_ok (RequestException []) html_bytes)))
          (idle_app (ustr '' Oslo ''))) = Some TclError \<and>
   result_var (snd (get_weather
          (sample_env (ustr ''k'')
             (Returns (http_ok (Returns (sample_body [(ustr ''country'', PStr (ustr ''Norway''))]
                                   [(ustr ''icon'', icon_116)])) []))
             (Returns (http_ok (RequestException []) html_bytes)))
          (idle_app (ustr '' Oslo '')))) = ustr ''Enter a location to begin.'' \<and>
   fst (get_weather
          (sample_env (ustr ''k'')
             (Returns (http_ok (Returns (PDict [(ustr ''location'', PDict [(ustr ''country'', PStr (ustr ''Norway''))]),
                                        (ustr ''current'', PInt 7)])) []))
             (RequestException (ustr ''timed out'')))
          (idle_app (ustr '' Oslo ''))) = Some AttributeError \<and>
   result_var (snd (get_weather
          (sample_env (ustr ''k'')
             (Returns (http_ok (Returns (PDict [(ustr ''location'', PDict [(ustr ''country'', PStr (ustr ''Norway''))]),
                                        (ustr ''current'', PInt 7)])) []))
             (RequestException (ustr ''timed out'')))
          (idle_app (ustr '' Oslo '')))) = ustr ''Enter a location to begin.''"
proof -
  have i: "dict_get [(ustr ''icon'', icon_116)] (ustr ''icon'') (PStr []) = icon_116"
    by (simp add: dict_get_def)
  have x: "extract_fields (ustr ''Oslo'')
             (PDict [(ustr ''location'', PDict [(ustr ''country'', PStr (ustr ''Norway''))]),
                     (ustr ''current'', PInt 7)]) = Inl AttributeError"
    by (simp add: extract_fields_def dict_get_def)
  show ?thesis
    unfolding sample_image_error [OF strip_idle i] sample_extract_error [OF x]
    by (simp add: idle_app_def)
qed

text \<open>
  Claim C9, amended. Let the body be an object whose \<open>location\<close> and \<open>current\<close> members
  are objects where present and whose \<open>condition\<close> is an object or counts as false, let
  region and country be texts where they count as true, let the icon step end without
  an exception, and let Tk take the text built from the body. When the location object has no \<open>name\<close>, or name, region and
  country all count as false, the first line of the result text is the trimmed query
  followed by the non-empty ones of region and country, joined by ", "; it is the
  trimmed query alone, which is not empty, when region and country are absent or empty.
\<close>

theorem get_weather_name_fallback:
  assumes "strip (location_entry s) = location" and "location \<noteq> []" and "API_KEY e \<noteq> []"
    and "try_primary e (primary_request e location) = Returns (PDict d)"
    and "dict_get d (ustr ''location'') (PDict []) = PDict l"
    and "dict_get d (ustr ''current'') (PDict []) = PDict cur"
    and "py_or (dict_get cur (ustr ''condition'') (PDict [])) (PDict []) = PDict cnd"
    and "icon_step_completes e (dict_get cnd (ustr ''icon'') (PStr []))"
    and "list_all is_str (filter py_bool
           [dict_get l (ustr ''region'') (PStr []), dict_get l (ustr ''country'') (PStr [])])"
    and "map_of l (ustr ''name'') = None \<or>
         \<not> py_bool (dict_get l (ustr ''name'') (PStr location)) \<and>
         \<not> py_bool (dict_get l (ustr ''region'') (PStr [])) \<and>
         \<not> py_bool (dict_get l (ustr ''country'') (PStr []))"
    and "text_accepted e location (PDict d)"
  shows "\<exists>f. extract_fields location (PDict d) = Inr f \<and>
           fst (get_weather e s) = None \<and>
           result_var (snd (get_weather e s)) =
             str_join [10]
               (str_join (ustr '', '')
                  (location # List.map_filter as_str (filter py_bool [region f, country f]))
                # weather_lines (container_repr e) f) \<and>
           (\<not> py_bool (region f) \<and> \<not> py_bool (country f) \<longrightarrow>
              result_var (snd (get_weather e s)) =
                str_join [10] (location # weather_lines (container_repr e) f))"
proof -
  let ?f = "\<lparr>name = dict_get l (ustr ''name'') (PStr location),
          region = dict_get l (ustr ''region'') (PStr []),
          country = dict_get l (ustr ''country'') (PStr []),
          temp_c = dict_get cur (ustr ''temp_c'') (PStr (ustr ''?'')),
          feelslike_c = dict_get cur (ustr ''feelslike_c'') (PStr (ustr ''?'')),
          humidity = dict_get cur (ustr ''humidity'') (PStr (ustr ''?'')),
          wind_kph = dict_get cur (ustr ''wind_kph'') (PStr (ustr ''?'')),
          cond_text = dict_get cnd (ustr ''text'') (PStr (ustr ''Unknown'')),
          icon_path = py_or (dict_get cnd (ustr ''icon'') (PStr [])) (PStr [])\<rparr>"
  let ?rest = "List.map_filter as_str (filter py_bool [region ?f, country ?f])"
  have x: "extract_fields location (PDict d) = Inr ?f"
    by (rule extract_fields_dict [OF assms(5-7)])
  have i: "icon_path ?f = py_or (dict_get cnd (ustr ''icon'') (PStr [])) (PStr [])"
    by simp
  have t: "location_textual ?f"
    using assms(9,10)
    by (auto simp: location_textual_def dict_get_def)
  have first: "(if location_line ?f \<noteq> [] then location_line ?f else location) =
               str_join (ustr '', '') (location # ?rest)"
  proof (cases "map_of l (ustr ''name'') = None")
    case True
    then have "location_line ?f = str_join (ustr '', '') (location # ?rest)"
      using assms(2) by (simp add: location_line_def dict_get_def List.map_filter_simps)
    then show ?thesis
      using assms(2) by (simp add: str_join_Cons_nonempty)
  next
    case False
    then have "\<not> py_bool (name ?f)" "\<not> py_bool (region ?f)" "\<not> py_bool (country ?f)"
      using assms(10) by auto
    then show ?thesis
      by (simp add: location_line_def List.map_filter_simps)
  qed
  have k: "tk_takes e (result_text (container_repr e) location ?f)"
    by (rule text_accepted_fields [OF assms(11) x])
  have r: "result_var (snd (get_weather e s)) =
             str_join [10] (str_join (ustr '', '') (location # ?rest)
                            # weather_lines (container_repr e) ?f)"
    using get_weather_completes(2) [OF assms(1-4) x i assms(8) t k]
    by (simp only: result_text_def first)
  have "\<not> py_bool (region ?f) \<and> \<not> py_bool (country ?f) \<longrightarrow>
          result_var (snd (get_weather e s)) =
            str_join [10] (location # weather_lines (container_repr e) ?f)"
    unfolding r by (simp add: List.map_filter_simps)
  then show ?thesis
    using x r get_weather_completes(1) [OF assms(1-4) x i assms(8) t k] by blast
qed

theorem get_weather_name_fallback_witness:
  "fst (get_weather
          (sample_env (ustr ''k'')
             (Returns (http_ok (Returns (sample_body [(ustr ''country'', PStr (ustr ''Norway''))]
                                   (cloudy icon_116))) []))
             (Returns (http_ok (RequestException []) gif_bytes)))
          (idle_app (ustr '' Oslo ''))) = None \<and>
   result_var (snd (get_weather
          (sample_env (ustr ''k'')
             (Returns (http_ok (Returns (sample_body [(ustr ''country'', PStr (ustr ''Norway''))]
                                   (cloudy icon_116))) []))
             (Returns (http_ok (RequestException []) gif_bytes)))
          (idle_app (ustr '' Oslo '')))) =
   ustr ''Oslo, Norway'' @ [10] @ ustr ''Condition: Partly cloudy'' @ [10] @
   ustr ''Temperature: 11.0'' @ [176] @ ustr ''C (feels like 9.4'' @ [176] @ ustr ''C)'' @ [10] @
   ustr ''Humidity: 82%'' @ [10] @ ustr ''Wind: 15.1 kph''"
proof -
  let ?l = "[(ustr ''country'', PStr (ustr ''Norway''))]"
  let ?cur = "[(ustr ''temp_c'', PFloat (ustr ''11.0'')),
               (ustr ''feelslike_c'', PFloat (ustr ''9.4'')),
               (ustr ''humidity'', PInt 82),
               (ustr ''wind_kph'', PFloat (ustr ''15.1'')),
               (ustr ''condition'', PDict (cloudy icon_116))]"
  let ?d = "[(ustr ''location'', PDict ?l), (ustr ''current'', PDict ?cur)]"
  let ?e = "sample_env (ustr ''k'') (Returns (http_ok (Returns (sample_body ?l (cloudy icon_116))) []))
        (Returns (http_ok (RequestException []) gif_bytes))"
  have h2: "ustr ''Oslo'' \<noteq> []"
    by simp
  have h4: "try_primary ?e (primary_request ?e (ustr ''Oslo'')) = Returns (PDict ?d)"
    using sample_primary [of "sample_body ?l (cloudy icon_116)"]
    by (simp only: oslo_body)
  have h5: "dict_get ?d (ustr ''location'') (PDict []) = PDict ?l"
    and h6: "dict_get ?d (ustr ''current'') (PDict []) = PDict ?cur"
    by (simp_all add: dict_get_def)
  have h7: "py_or (dict_get ?cur (ustr ''condition'') (PDict [])) (PDict []) = PDict (cloudy icon_116)"
    by (simp add: dict_get_def py_or_def cloudy_def)
  have "dict_get (cloudy icon_116) (ustr ''icon'') (PStr []) = icon_116"
    by (simp add: cloudy_def dict_get_def)
  then have h8: "icon_step_completes ?e (dict_get (cloudy icon_116) (ustr ''icon'') (PStr []))"
    by (simp add: icon_116_completes [OF gif_quiet])
  have h9: "list_all is_str (filter py_bool
           [dict_get ?l (ustr ''region'') (PStr []), dict_get ?l (ustr ''country'') (PStr [])])"
    by (simp add: dict_get_def)
  have h10: "map_of ?l (ustr ''name'') = None \<or>
         \<not> py_bool (dict_get ?l (ustr ''name'') (PStr (ustr ''Oslo''))) \<and>
         \<not> py_bool (dict_get ?l (ustr ''region'') (PStr [])) \<and>
         \<not> py_bool (dict_get ?l (ustr ''country'') (PStr []))"
    by simp
  have x: "extract_fields (ustr ''Oslo'') (PDict ?d) =
     Inr \<lparr>name = PStr (ustr ''Oslo''), region = PStr [],
          country = PStr (ustr ''Norway''),
          temp_c = PFloat (ustr ''11.0''), feelslike_c = PFloat (ustr ''9.4''),
          humidity = PInt 82, wind_kph = PFloat (ustr ''15.1''),
          cond_text = PStr (ustr ''Partly cloudy''), icon_path = icon_116\<rparr>"
    using extract_sample [of "ustr ''Oslo''" ?l "cloudy icon_116"]
    by (simp add: oslo_body cloudy_def dict_get_def py_or_def icon_116_def)
  have h11: "text_accepted ?e (ustr ''Oslo'') (PDict ?d)"
    by (simp add: text_accepted_def x result_text_def location_line_def List.map_filter_simps
        weather_lines_def str_82 tk_takes_def sample_env_def)
       (simp add: no_surrogate_def ustr_def)
  show ?thesis
    using get_weather_name_fallback [OF strip_idle h2 sample_key h4 h5 h6 h7 h8 h9 h10 h11]
    by (simp add: x weather_lines_def str_82 List.map_filter_simps) (simp add: ustr_def)
qed

section \<open>Defaults of the fields\<close>

text \<open>
  Claim C6, as the claim states it, fails: with an empty body object the name read is
  the trimmed query and region and country are the empty text, none of them "?" or
  "Unknown".
\<close>

theorem missing_location_members_counterexample:
  "case extract_fields (ustr ''Oslo'') (PDict []) of
     Inl x \<Rightarrow> False
   | Inr f \<Rightarrow> name f = PStr (ustr ''Oslo'') \<and> region f = PStr [] \<and> country f = PStr [] \<and>
       name f \<noteq> PStr (ustr ''?'') \<and> name f \<noteq> PStr (ustr ''Unknown'') \<and>
       region f \<noteq> PStr (ustr ''?'') \<and> region f \<noteq> PStr (ustr ''Unknown'') \<and>
       country f \<noteq> PStr (ustr ''?'') \<and> country f \<noteq> PStr (ustr ''Unknown'')"
  by (simp add: extract_fields_def dict_get_def py_or_def)

text \<open>
  Claim C6, amended. When the body is an object whose \<open>location\<close> and \<open>current\<close>
  members are objects where present, and whose \<open>condition\<close> is an object or counts as
  false, the fields are read without an exception, and a member that is absent is read
  as: the trimmed query for \<open>name\<close>, the empty text for \<open>region\<close> and \<open>country\<close>, "?"
  for \<open>temp_c\<close>, \<open>feelslike_c\<close>, \<open>humidity\<close> and \<open>wind_kph\<close>, and "Unknown" for the
  condition text.
\<close>

theorem extract_fields_fallbacks:
  assumes "dict_get d (ustr ''location'') (PDict []) = PDict l"
    and "dict_get d (ustr ''current'') (PDict []) = PDict cur"
    and "py_or (dict_get cur (ustr ''condition'') (PDict [])) (PDict []) = PDict cnd"
  shows "\<exists>f. extract_fields location (PDict d) = Inr f \<and>
           (map_of l (ustr ''name'') = None \<longrightarrow> name f = PStr location) \<and>
           (map_of l (ustr ''region'') = None \<longrightarrow> region f = PStr []) \<and>
           (map_of l (ustr ''country'') = None \<longrightarrow> country f = PStr []) \<and>
           (map_of cur (ustr ''temp_c'') = None \<longrightarrow> temp_c f = PStr (ustr ''?'')) \<and>
           (map_of cur (ustr ''feelslike_c'') = None \<longrightarrow> feelslike_c f = PStr (ustr ''?'')) \<and>
           (map_of cur (ustr ''humidity'') = None \<longrightarrow> humidity f = PStr (ustr ''?'')) \<and>
           (map_of cur (ustr ''wind_kph'') = None \<longrightarrow> wind_kph f = PStr (ustr ''?'')) \<and>
           (map_of cnd (ustr ''text'') = None \<longrightarrow> cond_text f = PStr (ustr ''Unknown''))"
  unfolding extract_fields_dict [OF assms]
  by (simp add: dict_get_def)

theorem extract_fields_fallbacks_witness:
  "case extract_fields (ustr ''Oslo'') (PDict [(ustr ''current'', PDict [(ustr ''condition'', PNone)])]) of
     Inl x \<Rightarrow> False
   | Inr f \<Rightarrow> name f = PStr (ustr ''Oslo'') \<and> region f = PStr [] \<and> country f = PStr [] \<and>
       temp_c f = PStr (ustr ''?'') \<and> feelslike_c f = PStr (ustr ''?'') \<and>
       humidity f = PStr (ustr ''?'') \<and> wind_kph f = PStr (ustr ''?'') \<and>
       cond_text f = PStr (ustr ''Unknown'')"
proof -
  let ?cur = "[(ustr ''condition'', PNone)]"
  let ?d = "[(ustr ''current'', PDict ?cur)]"
  have h1: "dict_get ?d (ustr ''location'') (PDict []) = PDict []"
    by (simp add: dict_get_def)
  have h2: "dict_get ?d (ustr ''current'') (PDict []) = PDict ?cur"
    by (simp add: dict_get_def)
  have h3: "py_or (dict_get ?cur (ustr ''condition'') (PDict [])) (PDict []) = PDict []"
    by (simp add: dict_get_def py_or_def)
  show ?thesis
    using extract_fields_fallbacks [OF h1 h2 h3, of "ustr ''Oslo''"] by auto
qed

section \<open>The icon step\<close>

text \<open>
  Claim C7 asks that every failure of the icon step, also one of decoding the bytes, is
  silent and leaves the result text set. The run below has a primary response that
  names an icon and an icon response with status 200 whose bytes are an HTML page:
  \<open>PhotoImage\<close> raises \<open>TclError\<close>, which \<open>except requests.RequestException\<close> does not
  catch. The exception leaves \<open>get_weather\<close> and the result text keeps its earlier
  value.
\<close>
theorem undecodable_icon_aborts:
  "get_weather
     (sample_env (ustr ''k'') (Returns (http_ok (Returns (sample_body [] [(ustr ''icon'', icon_116)])) []))
        (Returns (http_ok (RequestException []) html_bytes)))
     ((idle_app (ustr '' Oslo ''))\<lparr>result_var := ustr ''Bergen''\<rparr>) =
   (Some TclError,
    \<lparr>location_entry = ustr '' Oslo '', result_var = ustr ''Bergen'',
     icon_label_image = None, icon_label_bg = colors_surface, icon_image = None,
     requests_sent =
       [\<lparr>url = API_URL,
         params = [(ustr ''key'', ustr ''k''), (ustr ''q'', ustr ''Oslo''), (ustr ''aqi'', ustr ''no'')],
         timeout = 10\<rparr>,
        \<lparr>url = ustr ''https://cdn.weatherapi.com/weather/64x64/day/116.png'', params = [],
         timeout = 10\<rparr>],
     dialogs = []\<rparr>)"
proof -
  have h: "strip (location_entry ((idle_app (ustr '' Oslo ''))\<lparr>result_var := ustr ''Bergen''\<rparr>)) =
           ustr ''Oslo''"
    by (simp add: idle_app_def strip_Oslo)
  have i: "dict_get [(ustr ''icon'', icon_116)] (ustr ''icon'') (PStr []) = icon_116"
    by (simp add: dict_get_def)
  show ?thesis
    unfolding sample_image_error [OF h i]
    by (simp add: idle_app_def)
qed




section \<open>The icon of an earlier query\<close>

text \<open>
  Claim C10. When the primary request succeeds, \<open>get_weather\<close> clears the icon label and
  the stored image before it reads the fields. So the outcome does not depend on the
  icon shown before; afterwards the label and the stored image agree and hold either
  nothing or the image made from the answer to this query's icon request; and they hold
  nothing when the body gives no icon path.
\<close>

theorem get_weather_clears_stale_icon:
  assumes "strip (location_entry s) = location" and "location \<noteq> []" and "API_KEY e \<noteq> []"
    and "try_primary e (primary_request e location) = Returns data"
  shows "get_weather e (s\<lparr>icon_image := old_image, icon_label_image := old_shown\<rparr>) = get_weather e s \<and>
         icon_image (snd (get_weather e s)) = icon_label_image (snd (get_weather e s)) \<and>
         (icon_label_image (snd (get_weather e s)) = None \<or>
          (\<exists>f u resp. extract_fields location data = Inr f \<and> icon_url_of (icon_path f) = Inr u \<and>
             u \<noteq> [] \<and> requests_get e (icon_request u) = Returns resp \<and>
             icon_label_image (snd (get_weather e s)) = Some (PhotoImage (b64encode (content resp))))) \<and>
         ((\<forall>f. extract_fields location data = Inr f \<longrightarrow> icon_path f = PStr []) \<longrightarrow>
            icon_label_image (snd (get_weather e s)) = None)"
proof -
  let ?s1 = "s\<lparr>requests_sent := requests_sent s @ [primary_request e location]\<rparr>"
  have g: "get_weather e s = show_weather e location data ?s1"
    using assms by (rule get_weather_success)
  have "get_weather e (s\<lparr>icon_image := old_image, icon_label_image := old_shown\<rparr>) =
        show_weather e location data
          (s\<lparr>icon_image := old_image, icon_label_image := old_shown,
             requests_sent := requests_sent s @ [primary_request e location]\<rparr>)"
    using assms by (simp add: get_weather_def Let_def)
  then have "get_weather e (s\<lparr>icon_image := old_image, icon_label_image := old_shown\<rparr>) = get_weather e s"
    by (simp only: g show_weather_forgets_icon)
  then show ?thesis
    unfolding g
    using show_weather_icon [of e location data ?s1] show_weather_no_icon [of location data e ?s1]
    by blast
qed

theorem get_weather_clears_stale_icon_witness:
  "icon_label_image (snd (get_weather
      (sample_env (ustr ''k'') (Returns (http_ok (Returns (sample_body [] [(ustr ''text'', PStr (ustr ''Mist''))])) [])) (RequestException []))
      ((idle_app (ustr '' Oslo ''))\<lparr>icon_image := Some (PhotoImage (ustr ''R0lG'')),
                                      icon_label_image := Some (PhotoImage (ustr ''R0lG''))\<rparr>))) = None"
proof -
  let ?body = "sample_body [] [(ustr ''text'', PStr (ustr ''Mist''))]"
  let ?e = "sample_env (ustr ''k'') (Returns (http_ok (Returns ?body) [])) (RequestException [])"
  have h1: "strip (location_entry (idle_app (ustr '' Oslo ''))) = ustr ''Oslo''"
    by (rule strip_idle)
  have h2: "ustr ''Oslo'' \<noteq> []"
    by simp
  have h3: "API_KEY ?e \<noteq> []"
    by (simp add: sample_env_def)
  have h4: "try_primary ?e (primary_request ?e (ustr ''Oslo'')) = Returns ?body"
    by (rule sample_primary)
  have x: "extract_fields (ustr ''Oslo'') ?body =
     Inr \<lparr>name = PStr (ustr ''Oslo''), region = PStr [], country = PStr [],
          temp_c = PFloat (ustr ''11.0''), feelslike_c = PFloat (ustr ''9.4''),
          humidity = PInt 82, wind_kph = PFloat (ustr ''15.1''),
          cond_text = PStr (ustr ''Mist''), icon_path = PStr []\<rparr>"
    by (simp add: sample_body_def extract_fields_def dict_get_def py_or_def)
  have h5: "\<forall>f. extract_fields (ustr ''Oslo'') ?body = Inr f \<longrightarrow> icon_path f = PStr []"
    by (auto simp: x)
  show ?thesis
    using get_weather_clears_stale_icon [OF h1 h2 h3 h4,
        of "Some (PhotoImage (ustr ''R0lG''))" "Some (PhotoImage (ustr ''R0lG''))"] h5
    by simp
qed

end
